theory Spec2Isabelle
  imports Main
begin

section \<open>The verification runner \<open>verify_grid_controls\<close>\<close>

text \<open>
  The script drives a browser through a fixed, linear sequence of calls. Everything it
  does is an effect on the outside world, so the model is an explicit world state that is
  passed along: the log of the calls issued so far, each with its outcome, and the files of
  the working directory. What the outside world answers is a parameter of the run (the
  environment): for every call whether it returns or raises, and for every screenshot the
  picture that is captured. Every call of the script asks the environment, the prints and
  the teardown calls included: none is taken to succeed. The script has no loop and no two
  of its statements make the same call, so every call is made at most once in a run, and
  an environment that answers by call fixes the outcome at every statement.
\<close>

subsection \<open>Exceptions\<close>

text \<open>
  The automation library raises \<open>TimeoutError\<close> when a bounded wait elapses and
  \<open>Error\<close> (here \<open>PlaywrightError\<close>) for every other failure; \<open>print\<close> and the file
  system raise \<open>OSError\<close>. These derive from Python's \<open>Exception\<close>.
  \<open>KeyboardInterrupt\<close> stands for the exceptions that derive from \<open>BaseException\<close>
  only, which a clause \<open>except Exception\<close> does not match.
\<close>

datatype exn = TimeoutError string | PlaywrightError string | OSError string | KeyboardInterrupt

fun is_Exception :: "exn \<Rightarrow> bool" where
  "is_Exception KeyboardInterrupt = False"
| "is_Exception e = True"

fun is_TimeoutError :: "exn \<Rightarrow> bool" where
  "is_TimeoutError (TimeoutError m) = True"
| "is_TimeoutError e = False"

text \<open>\<open>str(e)\<close>, as the f-string of the handler formats the exception.\<close>

fun str :: "exn \<Rightarrow> string" where
  "str (TimeoutError m) = m"
| "str (PlaywrightError m) = m"
| "str (OSError m) = m"
| "str KeyboardInterrupt = []"

subsection \<open>Calls, events and the world\<close>

text \<open>
  One constructor for each kind of call the script makes. The \<open>nat option\<close> argument is
  the keyword argument \<open>timeout\<close> in milliseconds, \<open>None\<close> when the call passes none.
  \<open>WaitFor\<close> carries the selector of its locator, the awaited state and the timeout;
  \<open>Click\<close> and \<open>Hover\<close> the selector of their locator; \<open>Screenshot\<close> its path.
  \<open>SyncPlaywrightEnter\<close> and \<open>SyncPlaywrightExit\<close> are the two ends of the
  \<open>with sync_playwright()\<close> statement.
\<close>

datatype call =
    SyncPlaywrightEnter
  | Launch
  | NewPage
  | Print string
  | Goto string "nat option"
  | Locator string
  | WaitFor string string "nat option"
  | Screenshot string "nat option"
  | Click string "nat option"
  | Hover string "nat option"
  | BrowserClose
  | SyncPlaywrightExit

type_synonym event = "call \<times> exn option"

record world =
  trace :: "event list"
  files :: "string \<rightharpoonup> string"

record env =
  raises :: "call \<Rightarrow> exn option"
  pixels :: "string \<Rightarrow> string"

type_synonym prog = "world \<Rightarrow> (exn + unit) \<times> world"

definition emit :: "call \<Rightarrow> exn option \<Rightarrow> world \<Rightarrow> world" where
  "emit c r w = w\<lparr>trace := trace w @ [(c, r)]\<rparr>"

text \<open>
  A call asks the environment whether it returns or raises; either way it is entered in
  the log. A call that raises has no other effect.
\<close>

definition call :: "env \<Rightarrow> call \<Rightarrow> prog" where
  "call en c w =
     (case raises en c of
        None \<Rightarrow> (Inr (), emit c None w)
      | Some e \<Rightarrow> (Inl e, emit c (Some e) w))"

definition print :: "env \<Rightarrow> string \<Rightarrow> prog" where
  "print en s = call en (Print s)"

text \<open>
  \<open>page.screenshot(path=p)\<close>: when the call returns, the file at \<open>p\<close> holds the
  captured picture, whatever was there before.
\<close>

definition screenshot :: "env \<Rightarrow> string \<Rightarrow> prog" where
  "screenshot en p w =
     (case raises en (Screenshot p None) of
        None \<Rightarrow> (Inr (), (emit (Screenshot p None) None w)\<lparr>files := (files w)(p \<mapsto> pixels en p)\<rparr>)
      | Some e \<Rightarrow> (Inl e, emit (Screenshot p None) (Some e) w))"

definition raise :: "exn \<Rightarrow> prog" where
  "raise e w = (Inl e, w)"

subsection \<open>Control structures\<close>

text \<open>A sequence of statements: the first one that raises ends the sequence.\<close>

fun block :: "prog list \<Rightarrow> prog" where
  "block [] w = (Inr (), w)"
| "block (s # ss) w =
     (case s w of
        (Inl e, w') \<Rightarrow> (Inl e, w')
      | (Inr u, w') \<Rightarrow> block ss w')"

text \<open>
  \<open>try: body except Exception as e: handler finally: fin\<close>. The handler runs for an
  exception of the body that is an \<open>Exception\<close>; what the handler raises replaces it.
  The \<open>finally\<close> suite runs in every case, and what it raises replaces everything.
\<close>

definition try_except_finally :: "prog \<Rightarrow> (exn \<Rightarrow> prog) \<Rightarrow> prog \<Rightarrow> prog" where
  "try_except_finally body handler fin w =
     (let (r, w1) = body w;
          (r', w2) = (case r of
                        Inl e \<Rightarrow> if is_Exception e then handler e w1 else (Inl e, w1)
                      | Inr u \<Rightarrow> (Inr u, w1));
          (rf, w3) = fin w2
      in case rf of Inl ef \<Rightarrow> (Inl ef, w3) | Inr u \<Rightarrow> (r', w3))"

text \<open>
  \<open>with sync_playwright() as p: body\<close>. Entering the context may fail, and then the body
  does not run. Once entered, the context is left when the body ends, however it ends;
  the exit does not swallow the exception of the body, and what the exit itself raises
  replaces it.
\<close>

definition with_sync_playwright :: "env \<Rightarrow> prog \<Rightarrow> prog" where
  "with_sync_playwright en body w =
     (case call en SyncPlaywrightEnter w of
        (Inl e, w0) \<Rightarrow> (Inl e, w0)
      | (Inr u, w0) \<Rightarrow>
          (let (r, w1) = body w0;
               (rx, w2) = call en SyncPlaywrightExit w1
           in case rx of Inl ex \<Rightarrow> (Inl ex, w2) | Inr u' \<Rightarrow> (r, w2)))"

subsection \<open>The constants of the script\<close>

definition app_url :: string where
  \<open>app_url = ''http://localhost:5173''\<close>

definition trigger_sel :: string where
  \<open>trigger_sel = ''[data-testid="grid-selector-trigger"]''\<close>

definition popover_sel :: string where
  \<open>popover_sel = ''[data-testid="grid-selector-popover"]''\<close>

definition cell_sel :: string where
  \<open>cell_sel = ''[data-testid="grid-cell-2-2"]''\<close>

definition initial_path :: string where
  "initial_path = ''verification_initial.png''"

definition open_path :: string where
  "open_path = ''verification_open.png''"

definition error_path :: string where
  "error_path = ''verification_error.png''"

definition completion_message :: string where
  "completion_message = ''Verification script completed successfully.''"

definition error_message :: "exn \<Rightarrow> string" where
  "error_message e = ''Error during verification: '' @ str e"

subsection \<open>The script\<close>

definition try_body :: "env \<Rightarrow> prog" where
  "try_body en = block
     [ print en ''Navigating to app...'',
       call en (Goto app_url None),
       print en ''Waiting for grid controls...'',
       call en (Locator trigger_sel),
       call en (WaitFor trigger_sel ''visible'' (Some 10000)),
       print en ''Taking initial screenshot...'',
       screenshot en initial_path,
       print en ''Opening grid selector...'',
       call en (Click trigger_sel None),
       call en (Locator popover_sel),
       call en (WaitFor popover_sel ''visible'' (Some 2000)),
       print en ''Hovering over cell 2x2...'',
       call en (Locator cell_sel),
       call en (Hover cell_sel None),
       print en ''Taking open state screenshot...'',
       screenshot en open_path,
       print en completion_message ]"

definition except_handler :: "env \<Rightarrow> exn \<Rightarrow> prog" where
  "except_handler en e = block
     [ print en (error_message e),
       screenshot en error_path,
       raise e ]"

definition verify_grid_controls :: "env \<Rightarrow> prog" where
  "verify_grid_controls en =
     with_sync_playwright en (block
       [ call en Launch,
         call en NewPage,
         try_except_finally (try_body en) (except_handler en) (call en BrowserClose) ])"

text \<open>
  The process: the script is started in a working directory with the files \<open>fs\<close>. An
  exception that leaves \<open>verify_grid_controls\<close> ends the process with a status that is
  not zero (1 for an \<open>Exception\<close>, 130 for an interrupt); otherwise the status is 0.
\<close>

definition main :: "env \<Rightarrow> (string \<rightharpoonup> string) \<Rightarrow> (exn + unit) \<times> world" where
  "main en fs = verify_grid_controls en \<lparr>trace = [], files = fs\<rparr>"

fun exit_code :: "exn \<Rightarrow> nat" where
  "exit_code KeyboardInterrupt = 130"
| "exit_code e = 1"

fun exit_status :: "exn + unit \<Rightarrow> nat" where
  "exit_status (Inl e) = exit_code e"
| "exit_status (Inr u) = 0"

subsection \<open>What a run leaves behind\<close>

text \<open>
  The observations the properties are about, all read off the final world: which calls
  returned, which raised, which were made at all, which files were written (a screenshot
  that returned), what was printed, how often the browser was closed.
\<close>

definition returned :: "call \<Rightarrow> event" where
  "returned c = (c, None)"

definition succeeded :: "call \<Rightarrow> world \<Rightarrow> bool" where
  "succeeded c w = (returned c \<in> set (trace w))"



fun written_path :: "event \<Rightarrow> string option" where
  "written_path (Screenshot p None, None) = Some p"
| "written_path ev = None"

definition artifacts :: "world \<Rightarrow> string list" where
  "artifacts w = List.map_filter written_path (trace w)"

definition success_artifacts :: "world \<Rightarrow> string list" where
  "success_artifacts w = filter (\<lambda>p. p = initial_path \<or> p = open_path) (artifacts w)"

definition error_artifacts :: "world \<Rightarrow> string list" where
  "error_artifacts w = filter (\<lambda>p. p = error_path) (artifacts w)"

fun printed :: "event \<Rightarrow> string option" where
  "printed (Print s, None) = Some s"
| "printed ev = None"

definition stdout :: "world \<Rightarrow> string list" where
  "stdout w = List.map_filter printed (trace w)"




text \<open>The calls of the script that wait, act on the page or capture it.\<close>

definition goto_app :: call where
  "goto_app = Goto app_url None"

definition wait_trigger :: call where
  "wait_trigger = WaitFor trigger_sel ''visible'' (Some 10000)"

definition shot_initial :: call where
  "shot_initial = Screenshot initial_path None"

definition click_trigger :: call where
  "click_trigger = Click trigger_sel None"

definition wait_popover :: call where
  "wait_popover = WaitFor popover_sel ''visible'' (Some 2000)"

definition hover_cell :: call where
  "hover_cell = Hover cell_sel None"

definition shot_open :: call where
  "shot_open = Screenshot open_path None"

definition shot_error :: call where
  "shot_error = Screenshot error_path None"





subsection \<open>The shape of every run\<close>

text \<open>
  The script has no loop, so a run is determined by which calls raise. The definitions
  below describe the log and the outcome of a run in closed form; the lemma \<open>main_eval\<close>
  shows that the script produces exactly this.
\<close>

definition body_calls :: "call list" where
  "body_calls =
     [ Print ''Navigating to app...'',
       Goto app_url None,
       Print ''Waiting for grid controls...'',
       Locator trigger_sel,
       WaitFor trigger_sel ''visible'' (Some 10000),
       Print ''Taking initial screenshot...'',
       Screenshot initial_path None,
       Print ''Opening grid selector...'',
       Click trigger_sel None,
       Locator popover_sel,
       WaitFor popover_sel ''visible'' (Some 2000),
       Print ''Hovering over cell 2x2...'',
       Locator cell_sel,
       Hover cell_sel None,
       Print ''Taking open state screenshot...'',
       Screenshot open_path None,
       Print completion_message ]"

definition handler_calls :: "exn \<Rightarrow> call list" where
  "handler_calls e = [Print (error_message e), Screenshot error_path None]"

text \<open>One call as a statement: a screenshot also writes its file.\<close>

fun stmt :: "env \<Rightarrow> call \<Rightarrow> prog" where
  "stmt en (Screenshot p None) = screenshot en p"
| "stmt en c = call en c"

text \<open>
  The log and the outcome of a sequence of calls: the calls are made in order up to and
  including the first one that raises.
\<close>

fun events :: "env \<Rightarrow> call list \<Rightarrow> event list" where
  "events en [] = []"
| "events en (c # cs) =
     (case raises en c of None \<Rightarrow> (c, None) # events en cs | Some e \<Rightarrow> [(c, Some e)])"

fun outcome :: "env \<Rightarrow> call list \<Rightarrow> exn option" where
  "outcome en [] = None"
| "outcome en (c # cs) = (case raises en c of None \<Rightarrow> outcome en cs | Some e \<Rightarrow> Some e)"

fun result_of :: "exn option \<Rightarrow> exn + unit" where
  "result_of None = Inr ()"
| "result_of (Some e) = Inl e"

text \<open>An exception raised later replaces the one under way.\<close>

fun supersede :: "exn option \<Rightarrow> exn option \<Rightarrow> exn option" where
  "supersede (Some e) r = Some e"
| "supersede None r = r"

text \<open>The files after a log: every screenshot that returned wrote its file, in order.\<close>

definition replay :: "env \<Rightarrow> event list \<Rightarrow> (string \<rightharpoonup> string) \<Rightarrow> (string \<rightharpoonup> string)" where
  "replay en evs fs =
     fold (\<lambda>ev f. case written_path ev of None \<Rightarrow> f | Some p \<Rightarrow> f(p \<mapsto> pixels en p)) evs fs"

definition advance :: "env \<Rightarrow> event list \<Rightarrow> world \<Rightarrow> world" where
  "advance en evs w = w\<lparr>trace := trace w @ evs, files := replay en evs (files w)\<rparr>"

definition world_of :: "env \<Rightarrow> event list \<Rightarrow> (string \<rightharpoonup> string) \<Rightarrow> world" where
  "world_of en evs fs = \<lparr>trace = evs, files = replay en evs fs\<rparr>"

definition handler_events :: "env \<Rightarrow> exn \<Rightarrow> event list" where
  "handler_events en e = (if is_Exception e then events en (handler_calls e) else [])"

definition handler_outcome :: "env \<Rightarrow> exn \<Rightarrow> exn" where
  "handler_outcome en e =
     (if is_Exception e
      then (case outcome en (handler_calls e) of None \<Rightarrow> e | Some e' \<Rightarrow> e')
      else e)"

definition try_events :: "env \<Rightarrow> event list" where
  "try_events en =
     events en body_calls
     @ (case outcome en body_calls of None \<Rightarrow> [] | Some e \<Rightarrow> handler_events en e)
     @ [(BrowserClose, raises en BrowserClose)]"

definition try_outcome :: "env \<Rightarrow> exn option" where
  "try_outcome en =
     supersede (raises en BrowserClose)
       (case outcome en body_calls of None \<Rightarrow> None | Some e \<Rightarrow> Some (handler_outcome en e))"

definition session_events :: "env \<Rightarrow> event list" where
  "session_events en =
     events en [Launch, NewPage]
     @ (case outcome en [Launch, NewPage] of None \<Rightarrow> try_events en | Some e \<Rightarrow> [])"

definition session_outcome :: "env \<Rightarrow> exn option" where
  "session_outcome en =
     (case outcome en [Launch, NewPage] of None \<Rightarrow> try_outcome en | Some e \<Rightarrow> Some e)"

definition run_events :: "env \<Rightarrow> event list" where
  "run_events en =
     (case raises en SyncPlaywrightEnter of
        Some e \<Rightarrow> [(SyncPlaywrightEnter, Some e)]
      | None \<Rightarrow> (SyncPlaywrightEnter, None) # session_events en
                 @ [(SyncPlaywrightExit, raises en SyncPlaywrightExit)])"

definition run_outcome :: "env \<Rightarrow> exn option" where
  "run_outcome en =
     (case raises en SyncPlaywrightEnter of
        Some e \<Rightarrow> Some e
      | None \<Rightarrow> supersede (raises en SyncPlaywrightExit) (session_outcome en))"

definition full_run :: "event list" where
  "full_run =
     map returned ([SyncPlaywrightEnter, Launch, NewPage] @ body_calls
                   @ [BrowserClose, SyncPlaywrightExit])"


subsection \<open>Concrete environments\<close>

text \<open>
  An environment in which exactly the listed calls raise; the picture of a screenshot
  names the file it goes to.
\<close>

definition env_failing :: "(call \<times> exn) list \<Rightarrow> env" where
  "env_failing xs = \<lparr>raises = map_of xs, pixels = (\<lambda>p. ''pixels for '' @ p)\<rparr>"

definition env_ok :: env where
  "env_ok = env_failing []"



definition target_closed :: exn where
  "target_closed = PlaywrightError ''Target page, context or browser has been closed''"



definition env_close_fails :: env where
  "env_close_fails = env_failing [(BrowserClose, target_closed)]"











section \<open>Properties\<close>

subsection \<open>Every run has the closed form\<close>

lemma replay_Nil: "replay en [] fs = fs"
  by (simp add: replay_def)

lemma replay_Cons:
  "replay en (ev # evs) fs =
     replay en evs (case written_path ev of None \<Rightarrow> fs | Some p \<Rightarrow> fs(p \<mapsto> pixels en p))"
  by (simp add: replay_def)

lemma replay_append: "replay en (xs @ ys) fs = replay en ys (replay en xs fs)"
  by (simp add: replay_def)

lemma advance_Nil: "advance en [] w = w"
  by (simp add: advance_def replay_Nil)

lemma advance_advance: "advance en ys (advance en xs w) = advance en (xs @ ys) w"
  by (simp add: advance_def replay_append)

lemma advance_start: "advance en evs \<lparr>trace = [], files = fs\<rparr> = world_of en evs fs"
  by (simp add: advance_def world_of_def)

lemma advance_world_of: "advance en ys (world_of en xs fs) = world_of en (xs @ ys) fs"
  by (simp add: advance_def world_of_def replay_append)

lemma written_path_raised: "written_path (c, Some e) = None"
  by (cases "(c, Some e)" rule: written_path.cases) simp_all

lemma call_eval:
  "\<forall>p. c \<noteq> Screenshot p None \<Longrightarrow>
   call en c w = (result_of (raises en c), advance en [(c, raises en c)] w)"
  by (cases "raises en c"; cases "(c, None :: exn option)" rule: written_path.cases)
     (simp_all add: call_def emit_def advance_def replay_Cons replay_Nil written_path_raised)

lemma screenshot_eval:
  "screenshot en p w =
     (result_of (raises en (Screenshot p None)),
      advance en [(Screenshot p None, raises en (Screenshot p None))] w)"
  by (cases "raises en (Screenshot p None)")
     (simp_all add: screenshot_def emit_def advance_def replay_Cons replay_Nil)

lemma stmt_eval: "stmt en c w = (result_of (raises en c), advance en [(c, raises en c)] w)"
  by (cases "(en, c)" rule: stmt.cases) (simp_all add: screenshot_eval call_eval)

lemma events_single: "[(c, raises en c)] = events en [c]"
  by (cases "raises en c") simp_all

lemma block_stmts:
  "block (map (stmt en) cs) w = (result_of (outcome en cs), advance en (events en cs) w)"
proof (induction cs arbitrary: w)
  case Nil
  show ?case by (simp add: advance_Nil)
next
  case (Cons c cs)
  have step: "stmt en c w = (result_of (raises en c), advance en [(c, raises en c)] w)"
    by (rule stmt_eval)
  show ?case
    by (cases "raises en c") (simp_all add: step Cons.IH advance_advance)
qed

lemma try_body_stmts: "try_body en = block (map (stmt en) body_calls)"
  by (simp add: try_body_def body_calls_def print_def)

lemma try_body_eval:
  "try_body en w = (result_of (outcome en body_calls), advance en (events en body_calls) w)"
  by (simp add: try_body_stmts block_stmts)

lemma block_append:
  "block (xs @ ys) w =
     (case block xs w of (Inl e, w') \<Rightarrow> (Inl e, w') | (Inr u, w') \<Rightarrow> block ys w')"
  by (induction xs arbitrary: w) (auto split: prod.splits sum.splits)

lemma except_handler_stmts:
  "except_handler en e = block (map (stmt en) (handler_calls e) @ [raise e])"
  by (simp add: except_handler_def handler_calls_def print_def)

lemma except_handler_eval:
  "except_handler en e w =
     (Inl (case outcome en (handler_calls e) of None \<Rightarrow> e | Some e' \<Rightarrow> e'),
      advance en (events en (handler_calls e)) w)"
  by (cases "outcome en (handler_calls e)")
     (simp_all add: except_handler_stmts block_append block_stmts raise_def)

lemma close_eval:
  "call en BrowserClose w =
     (result_of (raises en BrowserClose), advance en [(BrowserClose, raises en BrowserClose)] w)"
  by (simp add: call_eval)

lemma try_eval:
  "try_except_finally (try_body en) (except_handler en) (call en BrowserClose) w =
     (result_of (try_outcome en), advance en (try_events en) w)"
proof (cases "outcome en body_calls")
  case None
  then show ?thesis
    by (cases "raises en BrowserClose")
       (simp_all add: try_except_finally_def try_body_eval close_eval try_events_def
          try_outcome_def advance_advance)
next
  case (Some e)
  then show ?thesis
    by (cases "raises en BrowserClose"; cases "is_Exception e")
       (simp_all add: try_except_finally_def try_body_eval except_handler_eval close_eval
          try_events_def try_outcome_def handler_events_def handler_outcome_def
          advance_advance)
qed

lemma session_eval:
  "block [call en Launch, call en NewPage,
          try_except_finally (try_body en) (except_handler en) (call en BrowserClose)] w =
     (result_of (session_outcome en), advance en (session_events en) w)"
  by (cases "raises en Launch"; cases "raises en NewPage"; cases "try_outcome en")
     (simp_all add: call_eval try_eval session_events_def session_outcome_def advance_advance)

lemma main_eval: "main en fs = (result_of (run_outcome en), world_of en (run_events en) fs)"
proof (cases "raises en SyncPlaywrightEnter")
  case None
  then show ?thesis
    by (cases "raises en SyncPlaywrightExit"; cases "session_outcome en")
       (simp_all add: main_def verify_grid_controls_def with_sync_playwright_def call_eval
          session_eval run_events_def run_outcome_def advance_advance advance_start
          advance_world_of del: block.simps)
next
  case (Some e)
  then show ?thesis
    by (simp add: main_def verify_grid_controls_def with_sync_playwright_def call_eval
          run_events_def run_outcome_def advance_start)
qed

subsection \<open>Reading the log backwards\<close>

lemma paths_distinct:
  "initial_path \<noteq> open_path" "initial_path \<noteq> error_path" "open_path \<noteq> error_path"
  "open_path \<noteq> initial_path" "error_path \<noteq> initial_path" "error_path \<noteq> open_path"
  by (simp_all add: initial_path_def open_path_def error_path_def)

lemma selectors_distinct:
  "trigger_sel \<noteq> popover_sel" "trigger_sel \<noteq> cell_sel" "popover_sel \<noteq> cell_sel"
  "popover_sel \<noteq> trigger_sel" "cell_sel \<noteq> trigger_sel" "cell_sel \<noteq> popover_sel"
  by (simp_all add: trigger_sel_def popover_sel_def cell_sel_def)

lemma distinct_body_calls: "distinct body_calls"
  by (simp add: body_calls_def paths_distinct selectors_distinct completion_message_def)

lemma length_body_calls: "length body_calls = 17"
  by (simp add: body_calls_def)

lemma body_calls_foreign:
  assumes "c \<in> set body_calls"
  shows "c \<noteq> SyncPlaywrightEnter" "c \<noteq> Launch" "c \<noteq> NewPage" "c \<noteq> BrowserClose"
    "c \<noteq> SyncPlaywrightExit" "c \<notin> set (handler_calls e)"
  using assms
  by (auto simp: body_calls_def handler_calls_def error_message_def paths_distinct
        completion_message_def)

lemma events_calls:
  "(c, r) \<in> set (events en cs) \<Longrightarrow> c \<in> set cs \<and> raises en c = r"
  by (induction cs) (auto split: option.splits)

lemma events_returned:
  "\<forall>p\<in>set pre. raises en p = None \<Longrightarrow> events en (pre @ cs) = map returned pre @ events en cs"
  by (induction pre) (simp_all add: returned_def)


lemma outcome_None_iff: "outcome en cs = None \<longleftrightarrow> (\<forall>c\<in>set cs. raises en c = None)"
  by (induction cs) (auto split: option.splits)

lemma events_reach:
  "(c, r) \<in> set (events en (pre @ c # post)) \<Longrightarrow> c \<notin> set pre \<Longrightarrow>
   \<forall>p\<in>set pre. raises en p = None"
  by (induction pre) (auto split: option.splits)

lemma run_event_outcome: "(c, r) \<in> set (run_events en) \<Longrightarrow> raises en c = r"
  by (auto simp: run_events_def session_events_def try_events_def handler_events_def
        split: option.splits if_splits dest: events_calls)

lemma body_event:
  assumes "(c, r) \<in> set (run_events en)" and "c \<in> set body_calls"
  shows "raises en SyncPlaywrightEnter = None" and "outcome en [Launch, NewPage] = None"
    and "(c, r) \<in> set (events en body_calls)"
proof -
  note foreign = body_calls_foreign[OF assms(2)]
  show enter: "raises en SyncPlaywrightEnter = None"
    using assms(1) foreign by (auto simp: run_events_def split: option.splits)
  have sess: "(c, r) \<in> set (session_events en)"
    using assms(1) foreign enter by (auto simp: run_events_def)
  have not_first: "(c, r) \<notin> set (events en [Launch, NewPage])"
    using foreign events_calls[of c r en "[Launch, NewPage]"] by (auto simp del: events.simps)
  show ready: "outcome en [Launch, NewPage] = None"
    using sess not_first by (cases "outcome en [Launch, NewPage]") (auto simp: session_events_def)
  have "(c, r) \<in> set (try_events en)"
    using sess not_first ready by (auto simp: session_events_def)
  then show "(c, r) \<in> set (events en body_calls)"
    using foreign
    by (auto simp: try_events_def handler_events_def split: option.splits if_splits
          dest: events_calls)
qed

lemma body_event_reach:
  assumes "(body_calls ! j, r) \<in> set (run_events en)" and "j < length body_calls"
  shows "raises en SyncPlaywrightEnter = None" and "outcome en [Launch, NewPage] = None"
    and "\<forall>p\<in>set (take j body_calls). raises en p = None"
    and "raises en (body_calls ! j) = r"
proof -
  have mem: "body_calls ! j \<in> set body_calls"
    using assms(2) by simp
  show "raises en SyncPlaywrightEnter = None" and "outcome en [Launch, NewPage] = None"
    using body_event[OF assms(1) mem] by simp_all
  have ev: "(body_calls ! j, r) \<in> set (events en body_calls)"
    using body_event[OF assms(1) mem] by simp
  have split: "body_calls = take j body_calls @ body_calls ! j # drop (Suc j) body_calls"
    using assms(2) by (rule id_take_nth_drop)
  have fresh: "body_calls ! j \<notin> set (take j body_calls)"
    using distinct_body_calls assms(2)
    by (metis split distinct_append distinct.simps(2) disjoint_iff list.set_intros(1))
  show "\<forall>p\<in>set (take j body_calls). raises en p = None"
    using ev fresh split events_reach[of "body_calls ! j" r en "take j body_calls"
        "drop (Suc j) body_calls"]
    by simp
  show "raises en (body_calls ! j) = r"
    using assms(1) by (rule run_event_outcome)
qed

lemma run_ready:
  assumes "raises en SyncPlaywrightEnter = None" and "outcome en [Launch, NewPage] = None"
  shows "run_events en =
     [returned SyncPlaywrightEnter, returned Launch, returned NewPage] @ try_events en
     @ [(SyncPlaywrightExit, raises en SyncPlaywrightExit)]"
    and "run_outcome en = supersede (raises en SyncPlaywrightExit) (try_outcome en)"
  using assms
  by (auto simp: run_events_def run_outcome_def session_events_def session_outcome_def
        returned_def split: option.splits)

subsection \<open>The run in which everything succeeds\<close>

lemma trace_main: "trace (snd (main en fs)) = run_events en"
  by (simp add: main_eval world_of_def)

lemma result_main: "fst (main en fs) = result_of (run_outcome en)"
  by (simp add: main_eval)

lemma files_main: "files (snd (main en fs)) = replay en (run_events en) fs"
  by (simp add: main_eval world_of_def)

lemma exit_code_nonzero: "exit_code e \<noteq> 0"
  by (cases e) simp_all

lemma exit_status_raised: "r \<noteq> None \<Longrightarrow> exit_status (result_of r) \<noteq> 0"
  by (cases r) (simp_all add: exit_code_nonzero)

lemma is_TimeoutError_Exception: "is_TimeoutError e \<Longrightarrow> is_Exception e"
  by (cases e) simp_all

lemma succeededD: "succeeded c (snd (main en fs)) \<Longrightarrow> (c, None) \<in> set (run_events en)"
  by (simp add: succeeded_def trace_main returned_def)


lemma events_all_returned:
  "\<forall>c\<in>set cs. raises en c = None \<Longrightarrow> events en cs = map returned cs"
  using events_returned[of cs en "[]"] by simp

lemma body_calls_last: "body_calls = take 16 body_calls @ [Print completion_message]"
  by (simp add: body_calls_def)

lemma clean_run:
  assumes "succeeded (Print completion_message) (snd (main en fs))"
    and "succeeded BrowserClose (snd (main en fs))"
    and "succeeded SyncPlaywrightExit (snd (main en fs))"
  shows "run_events en = full_run" and "run_outcome en = None"
proof -
  have last: "(body_calls ! 16, None) \<in> set (run_events en)"
    using succeededD[OF assms(1)] by (simp add: body_calls_def)
  have len: "16 < length body_calls"
    by (simp add: length_body_calls)
  note reach = body_event_reach[OF last len]
  have "\<forall>c\<in>set (take 16 body_calls @ [Print completion_message]). raises en c = None"
    using reach(3,4) by (simp add: body_calls_def)
  then have body: "\<forall>c\<in>set body_calls. raises en c = None"
    using body_calls_last by simp
  have evs: "events en body_calls = map returned body_calls"
    using body by (rule events_all_returned)
  have out: "outcome en body_calls = None"
    using body by (simp add: outcome_None_iff)
  have close: "raises en BrowserClose = None"
    using succeededD[OF assms(2)] by (rule run_event_outcome)
  have exit: "raises en SyncPlaywrightExit = None"
    using succeededD[OF assms(3)] by (rule run_event_outcome)
  show "run_events en = full_run"
    by (simp add: run_ready(1)[OF reach(1,2)] try_events_def evs out close exit full_run_def
          returned_def)
  show "run_outcome en = None"
    by (simp add: run_ready(2)[OF reach(1,2)] try_outcome_def out close exit)
qed

lemma full_run_artifacts: "List.map_filter written_path full_run = [initial_path, open_path]"
  by (simp add: full_run_def body_calls_def returned_def)

lemma full_run_stdout:
  "List.map_filter printed full_run =
     [''Navigating to app...'', ''Waiting for grid controls...'', ''Taking initial screenshot...'',
      ''Opening grid selector...'', ''Hovering over cell 2x2...'',
      ''Taking open state screenshot...'', completion_message]"
  by (simp add: full_run_def body_calls_def returned_def)

lemma full_run_files:
  "replay en full_run fs =
     fs(initial_path \<mapsto> pixels en initial_path, open_path \<mapsto> pixels en open_path)"
  by (simp add: full_run_def body_calls_def returned_def replay_Nil replay_Cons)

text \<open>
  Claim C1, as amended. For every run in which navigation, both visibility waits, the
  click, the hover, both screenshots, and also the print of the completion message,
  \<open>browser.close()\<close> and the exit of the \<open>sync_playwright()\<close> context succeed, the run
  writes exactly two success artifacts (the initial capture and the open-state capture),
  writes no error artifact, prints the completion message as its last line, and ends with
  success status 0.
\<close>

theorem full_run_succeeds:
  assumes "succeeded goto_app (snd (main en fs))"
    and "succeeded wait_trigger (snd (main en fs))"
    and "succeeded wait_popover (snd (main en fs))"
    and "succeeded click_trigger (snd (main en fs))"
    and "succeeded hover_cell (snd (main en fs))"
    and "succeeded shot_initial (snd (main en fs))"
    and "succeeded shot_open (snd (main en fs))"
    and "succeeded (Print completion_message) (snd (main en fs))"
    and "succeeded BrowserClose (snd (main en fs))"
    and "succeeded SyncPlaywrightExit (snd (main en fs))"
  shows "success_artifacts (snd (main en fs)) = [initial_path, open_path]
       \<and> error_artifacts (snd (main en fs)) = []
       \<and> files (snd (main en fs)) =
           fs(initial_path \<mapsto> pixels en initial_path, open_path \<mapsto> pixels en open_path)
       \<and> last (stdout (snd (main en fs))) = completion_message
       \<and> fst (main en fs) = Inr ()
       \<and> exit_status (fst (main en fs)) = 0"
proof -
  note run = clean_run[OF assms(8,9,10)]
  have "artifacts (snd (main en fs)) = [initial_path, open_path]"
    by (simp add: artifacts_def trace_main run full_run_artifacts)
  then have "success_artifacts (snd (main en fs)) = [initial_path, open_path]"
    and "error_artifacts (snd (main en fs)) = []"
    by (simp_all add: success_artifacts_def error_artifacts_def paths_distinct)
  moreover have "files (snd (main en fs)) =
      fs(initial_path \<mapsto> pixels en initial_path, open_path \<mapsto> pixels en open_path)"
    by (simp add: files_main run full_run_files)
  moreover have "last (stdout (snd (main en fs))) = completion_message"
    by (simp add: stdout_def trace_main run full_run_stdout)
  moreover have "fst (main en fs) = Inr ()"
    by (simp add: result_main run)
  ultimately show ?thesis by simp
qed

lemma raises_env_failing: "raises (env_failing xs) c = map_of xs c"
  by (simp add: env_failing_def)

lemma pixels_env_failing: "pixels (env_failing xs) p = ''pixels for '' @ p"
  by (simp add: env_failing_def)

lemmas run_defs = run_events_def run_outcome_def session_events_def session_outcome_def
  try_events_def try_outcome_def handler_events_def handler_outcome_def handler_calls_def
  body_calls_def raises_env_failing

lemmas call_defs = goto_app_def wait_trigger_def wait_popover_def click_trigger_def
  hover_cell_def shot_initial_def shot_open_def shot_error_def

lemma run_env_ok: "run_events env_ok = full_run" "run_outcome env_ok = None"
  by (simp_all add: run_defs env_ok_def full_run_def returned_def)

lemma full_run_members:
  "returned goto_app \<in> set full_run" "returned wait_trigger \<in> set full_run"
  "returned wait_popover \<in> set full_run" "returned click_trigger \<in> set full_run"
  "returned hover_cell \<in> set full_run" "returned shot_initial \<in> set full_run"
  "returned shot_open \<in> set full_run" "returned (Print completion_message) \<in> set full_run"
  "returned BrowserClose \<in> set full_run" "returned SyncPlaywrightExit \<in> set full_run"
  by (simp_all add: full_run_def body_calls_def call_defs)

theorem full_run_succeeds_witness:
  "succeeded goto_app (snd (main env_ok Map.empty))
   \<and> succeeded wait_trigger (snd (main env_ok Map.empty))
   \<and> succeeded wait_popover (snd (main env_ok Map.empty))
   \<and> succeeded click_trigger (snd (main env_ok Map.empty))
   \<and> succeeded hover_cell (snd (main env_ok Map.empty))
   \<and> succeeded shot_initial (snd (main env_ok Map.empty))
   \<and> succeeded shot_open (snd (main env_ok Map.empty))
   \<and> succeeded (Print completion_message) (snd (main env_ok Map.empty))
   \<and> succeeded BrowserClose (snd (main env_ok Map.empty))
   \<and> succeeded SyncPlaywrightExit (snd (main env_ok Map.empty))
   \<and> success_artifacts (snd (main env_ok Map.empty)) = [initial_path, open_path]
   \<and> error_artifacts (snd (main env_ok Map.empty)) = []
   \<and> last (stdout (snd (main env_ok Map.empty))) = completion_message
   \<and> exit_status (fst (main env_ok Map.empty)) = 0"
proof -
  have h: "succeeded goto_app (snd (main env_ok Map.empty))"
    "succeeded wait_trigger (snd (main env_ok Map.empty))"
    "succeeded wait_popover (snd (main env_ok Map.empty))"
    "succeeded click_trigger (snd (main env_ok Map.empty))"
    "succeeded hover_cell (snd (main env_ok Map.empty))"
    "succeeded shot_initial (snd (main env_ok Map.empty))"
    "succeeded shot_open (snd (main env_ok Map.empty))"
    "succeeded (Print completion_message) (snd (main env_ok Map.empty))"
    "succeeded BrowserClose (snd (main env_ok Map.empty))"
    "succeeded SyncPlaywrightExit (snd (main env_ok Map.empty))"
    by (simp_all add: succeeded_def trace_main run_env_ok full_run_members)
  from full_run_succeeds [OF h] h show ?thesis by blast
qed

lemma run_env_close_fails:
  "run_events env_close_fails =
     map returned ([SyncPlaywrightEnter, Launch, NewPage] @ body_calls)
     @ [(BrowserClose, Some target_closed), returned SyncPlaywrightExit]"
  "run_outcome env_close_fails = Some target_closed"
  by (simp_all add: run_defs env_close_fails_def returned_def)

text \<open>
  Counterexample to claim C1 as stated, which lists only the seven calls on the page: they
  all succeed and the run still fails. Here \<open>browser.close()\<close> raises in the
  \<open>finally\<close> suite after a clean try body, and the exception leaves the script.
\<close>

theorem full_run_counterexample:
  "succeeded goto_app (snd (main env_close_fails Map.empty))
   \<and> succeeded wait_trigger (snd (main env_close_fails Map.empty))
   \<and> succeeded wait_popover (snd (main env_close_fails Map.empty))
   \<and> succeeded click_trigger (snd (main env_close_fails Map.empty))
   \<and> succeeded hover_cell (snd (main env_close_fails Map.empty))
   \<and> succeeded shot_initial (snd (main env_close_fails Map.empty))
   \<and> succeeded shot_open (snd (main env_close_fails Map.empty))
   \<and> exit_status (fst (main env_close_fails Map.empty)) \<noteq> 0"
proof -
  have "succeeded goto_app (snd (main env_close_fails Map.empty))"
    "succeeded wait_trigger (snd (main env_close_fails Map.empty))"
    "succeeded wait_popover (snd (main env_close_fails Map.empty))"
    "succeeded click_trigger (snd (main env_close_fails Map.empty))"
    "succeeded hover_cell (snd (main env_close_fails Map.empty))"
    "succeeded shot_initial (snd (main env_close_fails Map.empty))"
    "succeeded shot_open (snd (main env_close_fails Map.empty))"
    by (simp_all add: succeeded_def trace_main run_env_close_fails body_calls_def call_defs)
  moreover have "exit_status (fst (main env_close_fails Map.empty)) \<noteq> 0"
    by (simp add: result_main run_env_close_fails exit_code_nonzero)
  ultimately show ?thesis by blast
qed

subsection \<open>Runs in which a wait times out\<close>

lemma supersede_Some: "supersede r (Some e) \<noteq> None"
  by (cases r) simp_all





















subsection \<open>The browser is closed once\<close>











subsection \<open>Failures before the try statement\<close>





lemma supersede_returned: "supersede None r = r"
  by simp






subsection \<open>The handler's own failure\<close>











subsection \<open>A failure in the try block is handled once\<close>








subsection \<open>The hover comes after the popover\<close>














subsection \<open>Timeouts\<close>






subsection \<open>Artifacts are overwritten\<close>







end
